theory Spec2Isabelle
  imports Complex_Main "HOL-Library.Word" "HOL-Library.Log_Nat"
begin

section \<open>Justifi API: the approval-routing and workflow core\<close>

text \<open>
  A shallow embedding of \<^verbatim>\<open>main.py\<close>. The document store \<^verbatim>\<open>db\<close> is a record with
  one list per collection, in insertion order; every handler takes the store and returns
  its result together with the store it leaves behind, so that a handler that raises
  after a write keeps that write, as the source does (there is no transaction).
  \<^verbatim>\<open>datetime.now\<close> is a parameter \<open>now\<close> of each handler (one reading per request).
  The rendering of documents by \<^verbatim>\<open>serialize_id\<close> is not modelled.
\<close>

subsection \<open>Object identifiers\<close>

text \<open>
  A \<^verbatim>\<open>bson.ObjectId\<close> holds a byte string, 12 bytes when the store generates it.
  \<^verbatim>\<open>str\<close> renders it as two lower-case hexadecimal digits per byte. \<^verbatim>\<open>ObjectId(s)\<close>
  on a string checks \<^verbatim>\<open>len(s) == 24\<close> and then calls \<^verbatim>\<open>bytes.fromhex(s)\<close>, raising
  \<^verbatim>\<open>InvalidId\<close> when the length differs or \<^verbatim>\<open>fromhex\<close> raises. \<^verbatim>\<open>bytes.fromhex\<close> reads
  two hexadecimal digits (either case) per byte and skips ASCII whitespace in front of
  a byte, so a 24-character string with whitespace in it can parse, to fewer than 12
  bytes; such an identifier equals no generated one.
\<close>

type_synonym byte = "8 word"
type_synonym oid = "byte list"
type_synonym datetime = nat

datatype error =
    HTTPException nat string
  | InvalidId
  | AttributeError
  | RequestValidationError

datatype response = OkTrue | IdResp string

definition hexdigit :: "nat \<Rightarrow> char" where
  "hexdigit d = ''0123456789abcdef'' ! d"

definition hexval :: "char \<Rightarrow> nat option" where
  "hexval c =
     (let n = (of_char c :: nat) in
      if 48 \<le> n \<and> n \<le> 57 then Some (n - 48)
      else if 97 \<le> n \<and> n \<le> 102 then Some (n - 87)
      else if 65 \<le> n \<and> n \<le> 70 then Some (n - 55)
      else None)"

definition isspace :: "char \<Rightarrow> bool" where
  "isspace c = (let n = (of_char c :: nat) in n = 32 \<or> (9 \<le> n \<and> n \<le> 13))"

text \<open>\<^verbatim>\<open>bytes.fromhex\<close>, with \<open>None\<close> for its \<^verbatim>\<open>ValueError\<close>.\<close>

fun fromhex :: "string \<Rightarrow> byte list option" where
  "fromhex [] = Some []"
| "fromhex [c] = (if isspace c then Some [] else None)"
| "fromhex (c # c2 # cs) =
     (if isspace c then fromhex (c2 # cs)
      else
        (case hexval c of
           None \<Rightarrow> None
         | Some hi \<Rightarrow>
            (case hexval c2 of
               None \<Rightarrow> None
             | Some lo \<Rightarrow> map_option (\<lambda>bs. of_nat (16 * hi + lo) # bs) (fromhex cs))))"

definition str_oid :: "oid \<Rightarrow> string" where
  "str_oid bs = concat (map (\<lambda>b. [hexdigit (unat b div 16), hexdigit (unat b mod 16)]) bs)"

definition ObjectId :: "string \<Rightarrow> error + oid" where
  "ObjectId s =
     (if length s = 24 then
        (case fromhex s of None \<Rightarrow> Inl InvalidId | Some bs \<Rightarrow> Inr bs)
      else Inl InvalidId)"

text \<open>
  The identifier the store gives to an inserted document: 12 bytes, here the big-endian
  bytes of a counter kept in the store.
\<close>

definition new_oid :: "nat \<Rightarrow> oid" where
  "new_oid n = map (\<lambda>k. of_nat (n div 256 ^ k)) [11, 10, 9, 8, 7, 6, 5, 4, 3, 2, 1, 0]"

subsection \<open>Numbers\<close>

text \<open>
  A Python float is a finite value, read as the real number it denotes, an infinity or
  NaN; \<open>float_ge a b\<close> is \<^verbatim>\<open>a >= b\<close>, false as soon as one side is NaN. A number
  stored in a rule document is an integer or a float, and \<^verbatim>\<open>float(thr)\<close> rounds an
  integer to the nearest float (53 bits, ties to even); the integers a document can hold
  are 64-bit, so the conversion cannot overflow.
\<close>

datatype pyfloat = Finite real | PosInf | NegInf | NaN

fun float_ge :: "pyfloat \<Rightarrow> pyfloat \<Rightarrow> bool" where
  "float_ge NaN b = False"
| "float_ge a NaN = False"
| "float_ge PosInf b = True"
| "float_ge a NegInf = True"
| "float_ge NegInf b = False"
| "float_ge a PosInf = False"
| "float_ge (Finite x) (Finite y) = (y \<le> x)"

datatype number = JInt int | JFloat pyfloat

definition float_of_int :: "int \<Rightarrow> pyfloat" where
  "float_of_int i =
     (let a = \<bar>i\<bar> in
      if a < 2 ^ 53 then Finite (of_int i)
      else
        (let e = nat (bitlen a - 53);
             q = a div 2 ^ e;
             r = a mod 2 ^ e;
             q' = (if 2 * r > 2 ^ e \<or> (2 * r = 2 ^ e \<and> odd q) then q + 1 else q)
         in Finite (of_int (sgn i * q' * 2 ^ e))))"

fun py_float :: "number \<Rightarrow> pyfloat" where
  "py_float (JInt i) = float_of_int i"
| "py_float (JFloat x) = x"

subsection \<open>Documents\<close>

record Justification =
  j_id :: oid
  j_title :: string
  j_type_code :: string
  j_department :: string
  j_cost_centre :: string
  j_requester_email :: string
  j_urgency :: string
  j_description :: string
  j_business_impact :: "string option"
  j_alternatives :: "string option"
  j_cost_estimate :: "pyfloat option"
  j_required_date :: "string option"
  j_dynamic_values :: "(string \<times> string) list"
  j_attachments :: "(string \<times> string) list list"
  j_status :: string
  j_created_at :: datetime
  j_updated_at :: datetime

record RoutingRule =
  r_id :: oid
  r_name :: string
  r_department :: "string option"
  r_type_code :: "string option"
  r_spend_threshold :: "number option"
  r_approver_emails :: "string list"
  r_created_at :: datetime

record ApprovalTask =
  t_id :: oid
  t_justification_id :: string
  t_approver_email :: string
  t_step_index :: nat
  t_status :: string
  t_requested_more_info :: "string option"
  t_created_at :: datetime
  t_updated_at :: "datetime option"

record Comment =
  c_id :: oid
  c_justification_id :: string
  c_author_email :: string
  c_message :: string
  c_is_internal :: bool
  c_created_at :: datetime

record AuditLog =
  a_id :: oid
  a_entity :: string
  a_entity_id :: string
  a_action :: string
  a_actor_email :: string
  a_details :: "(string \<times> string option) list"
  a_timestamp :: datetime

record Email =
  e_id :: oid
  e_to :: "string list"
  e_subject :: string
  e_html :: string
  e_created_at :: datetime

text \<open>The store: the six collections and the generator of fresh identifiers.\<close>

record db =
  justification :: "Justification list"
  routingrule :: "RoutingRule list"
  approvaltask :: "ApprovalTask list"
  comment :: "Comment list"
  auditlog :: "AuditLog list"
  emailoutbox :: "Email list"
  next_oid :: nat

definition empty_db :: db where
  "empty_db = \<lparr>justification = [], routingrule = [], approvaltask = [], comment = [],
     auditlog = [], emailoutbox = [], next_oid = 0\<rparr>"

subsection \<open>Request payloads\<close>

record JustificationCreate =
  jc_title :: string
  jc_type_code :: string
  jc_department :: string
  jc_cost_centre :: string
  jc_requester_email :: string
  jc_urgency :: string
  jc_description :: string
  jc_business_impact :: "string option"
  jc_alternatives :: "string option"
  jc_cost_estimate :: "pyfloat option"
  jc_required_date :: "string option"
  jc_dynamic_values :: "(string \<times> string) list"
  jc_attachments :: "(string \<times> string) list list"

record CommentCreate =
  cc_author_email :: string
  cc_message :: string
  cc_is_internal :: bool

record ApproverAction =
  aa_actor_email :: string
  aa_comment :: "string option"

record RequestInfoAction =
  ri_actor_email :: string
  ri_reason :: string

record ResubmitPayload =
  rs_actor_email :: string
  rs_message :: "string option"

text \<open>
  The body of a request-info call as it arrives, each field present or not. Both fields
  of \<^verbatim>\<open>RequestInfoAction\<close> are declared \<^verbatim>\<open>str\<close> with no default, so the framework refuses a
  body that lacks one before the handler runs; an empty string is a \<^verbatim>\<open>str\<close>.
\<close>

record RequestInfoBody =
  rb_actor_email :: "string option"
  rb_reason :: "string option"

definition RequestInfoAction_validate :: "RequestInfoBody \<Rightarrow> error + RequestInfoAction" where
  "RequestInfoAction_validate b =
     (case rb_actor_email b of
        None \<Rightarrow> Inl RequestValidationError
      | Some a \<Rightarrow>
         (case rb_reason b of
            None \<Rightarrow> Inl RequestValidationError
          | Some r \<Rightarrow> Inr \<lparr>ri_actor_email = a, ri_reason = r\<rparr>))"

subsection \<open>Collection primitives\<close>

definition find_one :: "('a \<Rightarrow> bool) \<Rightarrow> 'a list \<Rightarrow> 'a option" where
  "find_one P xs = List.find P xs"

fun update_one :: "('a \<Rightarrow> bool) \<Rightarrow> ('a \<Rightarrow> 'a) \<Rightarrow> 'a list \<Rightarrow> 'a list" where
  "update_one P f [] = []"
| "update_one P f (x # xs) = (if P x then f x # xs else x # update_one P f xs)"

definition update_many :: "('a \<Rightarrow> bool) \<Rightarrow> ('a \<Rightarrow> 'a) \<Rightarrow> 'a list \<Rightarrow> 'a list" where
  "update_many P f xs = map (\<lambda>x. if P x then f x else x) xs"

definition count_documents :: "('a \<Rightarrow> bool) \<Rightarrow> 'a list \<Rightarrow> nat" where
  "count_documents P xs = length (filter P xs)"

subsection \<open>Routing selection\<close>

type_synonym query = "(string \<times> string) list"

definition rule_get :: "RoutingRule \<Rightarrow> string \<Rightarrow> string option" where
  "rule_get r k =
     (if k = ''department'' then r_department r
      else if k = ''type_code'' then r_type_code r
      else None)"

definition rule_matches :: "query \<Rightarrow> RoutingRule \<Rightarrow> bool" where
  "rule_matches c r = list_all (\<lambda>(k, v). rule_get r k = Some v) c"

definition candidates :: "string \<Rightarrow> string \<Rightarrow> query list" where
  "candidates department type_code =
     (if department \<noteq> [] \<and> type_code \<noteq> []
        then [[(''department'', department), (''type_code'', type_code)]] else [])
     @ (if type_code \<noteq> [] then [[(''type_code'', type_code)]] else [])
     @ (if department \<noteq> [] then [[(''department'', department)]] else [])
     @ [[]]"

text \<open>\<^verbatim>\<open>spend or 0\<close>: \<open>None\<close> and a zero float are falsy, every other float is kept.\<close>

definition spend_or_0 :: "pyfloat option \<Rightarrow> pyfloat" where
  "spend_or_0 spend =
     (case spend of None \<Rightarrow> Finite 0 | Some x \<Rightarrow> if x = Finite 0 then Finite 0 else x)"

definition threshold_ok :: "pyfloat option \<Rightarrow> RoutingRule \<Rightarrow> bool" where
  "threshold_ok spend r =
     (case r_spend_threshold r of
        None \<Rightarrow> True
      | Some thr \<Rightarrow> float_ge (spend_or_0 spend) (py_float thr))"

fun scan_cursor :: "pyfloat option \<Rightarrow> RoutingRule list \<Rightarrow> RoutingRule option" where
  "scan_cursor spend [] = None"
| "scan_cursor spend (r # cur) =
     (if threshold_ok spend r then Some r else scan_cursor spend cur)"

fun scan_candidates :: "RoutingRule list \<Rightarrow> pyfloat option \<Rightarrow> query list \<Rightarrow> RoutingRule option" where
  "scan_candidates rules spend [] = None"
| "scan_candidates rules spend (c # cs) =
     (case scan_cursor spend (filter (rule_matches c) rules) of
        Some r \<Rightarrow> Some r
      | None \<Rightarrow> scan_candidates rules spend cs)"

definition select_routing_rule :: "db \<Rightarrow> string \<Rightarrow> string \<Rightarrow> pyfloat option \<Rightarrow> RoutingRule option" where
  "select_routing_rule s department type_code spend =
     scan_candidates (routingrule s) spend (candidates department type_code)"

subsection \<open>Audit helper and email stub\<close>

definition log_audit ::
  "db \<Rightarrow> datetime \<Rightarrow> string \<Rightarrow> string \<Rightarrow> string \<Rightarrow> string \<Rightarrow> (string \<times> string option) list option \<Rightarrow> db" where
  "log_audit s now entity entity_id action actor details =
     s\<lparr>auditlog := auditlog s @
          [\<lparr>a_id = new_oid (next_oid s), a_entity = entity, a_entity_id = entity_id,
            a_action = action, a_actor_email = actor,
            a_details = (case details of None \<Rightarrow> [] | Some d \<Rightarrow> d),
            a_timestamp = now\<rparr>],
        next_oid := next_oid s + 1\<rparr>"

definition send_email_stub :: "db \<Rightarrow> datetime \<Rightarrow> string list \<Rightarrow> string \<Rightarrow> string \<Rightarrow> db" where
  "send_email_stub s now to subject html =
     s\<lparr>emailoutbox := emailoutbox s @
          [\<lparr>e_id = new_oid (next_oid s), e_to = to, e_subject = subject,
            e_html = html, e_created_at = now\<rparr>],
        next_oid := next_oid s + 1\<rparr>"

subsection \<open>Routes\<close>

text \<open>Submission: \<^verbatim>\<open>create_justification\<close>. The loop over \<^verbatim>\<open>enumerate(approvers)\<close> is
  \<open>create_tasks\<close>, started at index 0.\<close>

definition insert_task :: "db \<Rightarrow> datetime \<Rightarrow> string \<Rightarrow> nat \<Rightarrow> string \<Rightarrow> db" where
  "insert_task s now jid_str idx email =
     s\<lparr>approvaltask := approvaltask s @
          [\<lparr>t_id = new_oid (next_oid s), t_justification_id = jid_str,
            t_approver_email = email, t_step_index = idx, t_status = ''Pending'',
            t_requested_more_info = None, t_created_at = now, t_updated_at = None\<rparr>],
        next_oid := next_oid s + 1\<rparr>"

fun create_tasks :: "db \<Rightarrow> datetime \<Rightarrow> string \<Rightarrow> nat \<Rightarrow> string list \<Rightarrow> db" where
  "create_tasks s now jid_str idx [] = s"
| "create_tasks s now jid_str idx (email # rest) =
     create_tasks (insert_task s now jid_str idx email) now jid_str (Suc idx) rest"

definition resolved_approvers :: "RoutingRule option \<Rightarrow> string list" where
  "resolved_approvers rule =
     (case rule of
        None \<Rightarrow> []
      | Some r \<Rightarrow>
          if r_approver_emails r \<noteq> [] then filter (\<lambda>a. a \<noteq> []) (r_approver_emails r)
          else [])"

definition insert_justification :: "db \<Rightarrow> datetime \<Rightarrow> JustificationCreate \<Rightarrow> db" where
  "insert_justification s now payload =
     s\<lparr>justification := justification s @
          [\<lparr>j_id = new_oid (next_oid s), j_title = jc_title payload,
            j_type_code = jc_type_code payload,
            j_department = jc_department payload, j_cost_centre = jc_cost_centre payload,
            j_requester_email = jc_requester_email payload, j_urgency = jc_urgency payload,
            j_description = jc_description payload,
            j_business_impact = jc_business_impact payload,
            j_alternatives = jc_alternatives payload,
            j_cost_estimate = jc_cost_estimate payload,
            j_required_date = jc_required_date payload,
            j_dynamic_values = jc_dynamic_values payload,
            j_attachments = jc_attachments payload,
            j_status = ''PendingApproval'', j_created_at = now, j_updated_at = now\<rparr>],
        next_oid := next_oid s + 1\<rparr>"

definition create_justification ::
  "db \<Rightarrow> datetime \<Rightarrow> JustificationCreate \<Rightarrow> (error + response) \<times> db" where
  "create_justification s now payload =
     (let jid = new_oid (next_oid s);
          s1 = insert_justification s now payload;
          jid_str = str_oid jid;
          rule = select_routing_rule s1 (jc_department payload) (jc_type_code payload)
                   (jc_cost_estimate payload);
          approvers = resolved_approvers rule;
          s2 = create_tasks s1 now jid_str 0 approvers;
          s3 = (if approvers \<noteq> []
                then send_email_stub s2 now approvers ''New approval request''
                       (''Justification '' @ jc_title payload @ '' requires your approval.'')
                else s2);
          s4 = send_email_stub s3 now [jc_requester_email payload] ''Submission received''
                 (''Your justification '' @ [CHR 0x27] @ jc_title payload @ [CHR 0x27]
                    @ '' has been submitted.'');
          s5 = log_audit s4 now ''justification'' jid_str ''CREATE''
                 (jc_requester_email payload) (Some [(''title'', Some (jc_title payload))])
      in (Inr (IdResp jid_str), s5))"

text \<open>The detail view: \<^verbatim>\<open>get_justification\<close>. It reads only.\<close>

record JustificationDetail =
  d_just :: Justification
  d_approval_tasks :: "ApprovalTask list"
  d_comments :: "Comment list"
  d_audit :: "AuditLog list"

definition get_justification :: "db \<Rightarrow> string \<Rightarrow> (error + JustificationDetail) \<times> db" where
  "get_justification s jid =
     (case ObjectId jid of
        Inl e \<Rightarrow> (Inl e, s)
      | Inr j \<Rightarrow>
         (case find_one (\<lambda>d. j_id d = j) (justification s) of
            None \<Rightarrow> (Inl (HTTPException 404 ''Not found''), s)
          | Some doc \<Rightarrow>
             (Inr \<lparr>d_just = doc,
                   d_approval_tasks =
                     sort_key t_step_index
                       (filter (\<lambda>t. t_justification_id t = jid) (approvaltask s)),
                   d_comments =
                     sort_key c_created_at
                       (filter (\<lambda>c. c_justification_id c = jid) (comment s)),
                   d_audit =
                     sort_key a_timestamp
                       (filter (\<lambda>a. a_entity a = ''justification'' \<and> a_entity_id a = jid)
                          (auditlog s))\<rparr>, s)))"

text \<open>
  The approver actions. \<^verbatim>\<open>just.get\<close> on the \<^verbatim>\<open>None\<close> that \<^verbatim>\<open>find_one\<close> returns for a
  justification that is not stored raises \<^verbatim>\<open>AttributeError\<close>; the writes made before it stay.
\<close>

definition approve_task ::
  "db \<Rightarrow> datetime \<Rightarrow> string \<Rightarrow> ApproverAction \<Rightarrow> (error + response) \<times> db" where
  "approve_task s now task_id action =
     (case ObjectId task_id of
        Inl e \<Rightarrow> (Inl e, s)
      | Inr i \<Rightarrow>
         (case find_one (\<lambda>t. t_id t = i) (approvaltask s) of
            None \<Rightarrow> (Inl (HTTPException 404 ''Task not found''), s)
          | Some task \<Rightarrow>
             (let jid = t_justification_id task;
                  s1 = s\<lparr>approvaltask :=
                          update_one (\<lambda>t. t_id t = t_id task)
                            (\<lambda>t. t\<lparr>t_status := ''Approved'', t_updated_at := Some now\<rparr>)
                            (approvaltask s)\<rparr>;
                  s2 = log_audit s1 now ''justification'' jid ''APPROVE''
                         (aa_actor_email action)
                         (Some [(''task_id'', Some task_id), (''comment'', aa_comment action)]);
                  remaining =
                    count_documents
                      (\<lambda>t. t_justification_id t = jid \<and> t_status t \<noteq> ''Approved'')
                      (approvaltask s2)
              in if remaining = 0 then
                   (case ObjectId jid of
                      Inl e \<Rightarrow> (Inl e, s2)
                    | Inr j \<Rightarrow>
                       (let s3 = s2\<lparr>justification :=
                                     update_one (\<lambda>d. j_id d = j)
                                       (\<lambda>d. d\<lparr>j_status := ''Approved'', j_updated_at := now\<rparr>)
                                       (justification s2)\<rparr>
                        in case find_one (\<lambda>d. j_id d = j) (justification s3) of
                             None \<Rightarrow> (Inl AttributeError, s3)
                           | Some just \<Rightarrow>
                              (Inr OkTrue,
                               send_email_stub s3 now [j_requester_email just]
                                 ''Final approval''
                                 (''Your justification '' @ [CHR 0x27] @ j_title just
                                    @ [CHR 0x27] @ '' is approved.''))))
                 else (Inr OkTrue, s2))))"

definition reject_task ::
  "db \<Rightarrow> datetime \<Rightarrow> string \<Rightarrow> ApproverAction \<Rightarrow> (error + response) \<times> db" where
  "reject_task s now task_id action =
     (case aa_comment action of
        None \<Rightarrow> (Inl (HTTPException 400 ''Rejection requires a reason in comment''), s)
      | Some reason \<Rightarrow>
         if reason = [] then
           (Inl (HTTPException 400 ''Rejection requires a reason in comment''), s)
         else
          (case ObjectId task_id of
             Inl e \<Rightarrow> (Inl e, s)
           | Inr i \<Rightarrow>
              (case find_one (\<lambda>t. t_id t = i) (approvaltask s) of
                 None \<Rightarrow> (Inl (HTTPException 404 ''Task not found''), s)
               | Some task \<Rightarrow>
                  (let jid = t_justification_id task;
                       s1 = s\<lparr>approvaltask :=
                               update_one (\<lambda>t. t_id t = t_id task)
                                 (\<lambda>t. t\<lparr>t_status := ''Rejected'', t_updated_at := Some now\<rparr>)
                                 (approvaltask s)\<rparr>
                   in case ObjectId jid of
                        Inl e \<Rightarrow> (Inl e, s1)
                      | Inr j \<Rightarrow>
                         (let s2 = s1\<lparr>justification :=
                                       update_one (\<lambda>d. j_id d = j)
                                         (\<lambda>d. d\<lparr>j_status := ''Rejected'', j_updated_at := now\<rparr>)
                                         (justification s1)\<rparr>;
                              s3 = log_audit s2 now ''justification'' jid ''REJECT''
                                     (aa_actor_email action)
                                     (Some [(''task_id'', Some task_id),
                                            (''comment'', aa_comment action)])
                          in case find_one (\<lambda>d. j_id d = j) (justification s3) of
                               None \<Rightarrow> (Inl AttributeError, s3)
                             | Some just \<Rightarrow>
                                (Inr OkTrue,
                                 send_email_stub s3 now [j_requester_email just] ''Rejected''
                                   (''Your justification '' @ [CHR 0x27] @ j_title just
                                      @ [CHR 0x27] @ '' was rejected. Reason: '' @ reason)))))))"

definition request_info ::
  "db \<Rightarrow> datetime \<Rightarrow> string \<Rightarrow> RequestInfoAction \<Rightarrow> (error + response) \<times> db" where
  "request_info s now task_id action =
     (case ObjectId task_id of
        Inl e \<Rightarrow> (Inl e, s)
      | Inr i \<Rightarrow>
         (case find_one (\<lambda>t. t_id t = i) (approvaltask s) of
            None \<Rightarrow> (Inl (HTTPException 404 ''Task not found''), s)
          | Some task \<Rightarrow>
             (let jid = t_justification_id task;
                  s1 = s\<lparr>approvaltask :=
                          update_one (\<lambda>t. t_id t = t_id task)
                            (\<lambda>t. t\<lparr>t_status := ''NeedsMoreInfo'',
                                   t_requested_more_info := Some (ri_reason action),
                                   t_updated_at := Some now\<rparr>)
                            (approvaltask s)\<rparr>
              in case ObjectId jid of
                   Inl e \<Rightarrow> (Inl e, s1)
                 | Inr j \<Rightarrow>
                    (let s2 = s1\<lparr>justification :=
                                  update_one (\<lambda>d. j_id d = j)
                                    (\<lambda>d. d\<lparr>j_status := ''NeedsMoreInfo'', j_updated_at := now\<rparr>)
                                    (justification s1)\<rparr>
                     in case find_one (\<lambda>d. j_id d = j) (justification s2) of
                          None \<Rightarrow> (Inl AttributeError, s2)
                        | Some just \<Rightarrow>
                           (let s3 = send_email_stub s2 now [j_requester_email just]
                                       ''More information requested''
                                       (''Approver requested more info: '' @ ri_reason action);
                                s4 = log_audit s3 now ''justification'' jid ''REQUEST_INFO''
                                       (ri_actor_email action)
                                       (Some [(''task_id'', Some task_id),
                                              (''reason'', Some (ri_reason action))])
                            in (Inr OkTrue, s4))))))"

text \<open>The request-info route as a caller reaches it: the body is validated first.\<close>

definition request_info_route ::
  "db \<Rightarrow> datetime \<Rightarrow> string \<Rightarrow> RequestInfoBody \<Rightarrow> (error + response) \<times> db" where
  "request_info_route s now task_id body =
     (case RequestInfoAction_validate body of
        Inl e \<Rightarrow> (Inl e, s)
      | Inr action \<Rightarrow> request_info s now task_id action)"

definition resubmit ::
  "db \<Rightarrow> datetime \<Rightarrow> string \<Rightarrow> ResubmitPayload \<Rightarrow> (error + response) \<times> db" where
  "resubmit s now jid payload =
     (case ObjectId jid of
        Inl e \<Rightarrow> (Inl e, s)
      | Inr j \<Rightarrow>
         (case find_one (\<lambda>d. j_id d = j) (justification s) of
            None \<Rightarrow> (Inl (HTTPException 404 ''Not found''), s)
          | Some just \<Rightarrow>
             (let s1 = s\<lparr>justification :=
                          update_one (\<lambda>d. j_id d = j_id just)
                            (\<lambda>d. d\<lparr>j_status := ''PendingApproval'', j_updated_at := now\<rparr>)
                            (justification s)\<rparr>;
                  s2 = s1\<lparr>approvaltask :=
                           update_many
                             (\<lambda>t. t_justification_id t = jid \<and> t_status t = ''NeedsMoreInfo'')
                             (\<lambda>t. t\<lparr>t_status := ''Pending'', t_updated_at := Some now\<rparr>)
                             (approvaltask s1)\<rparr>;
                  s3 = log_audit s2 now ''justification'' jid ''RESUBMIT''
                         (rs_actor_email payload) (Some [(''message'', rs_message payload)]);
                  s4 = send_email_stub s3 now [rs_actor_email payload] ''Resubmitted''
                         ''Your justification was resubmitted.''
              in (Inr OkTrue, s4))))"

definition add_comment ::
  "db \<Rightarrow> datetime \<Rightarrow> string \<Rightarrow> CommentCreate \<Rightarrow> (error + response) \<times> db" where
  "add_comment s now jid payload =
     (case ObjectId jid of
        Inl e \<Rightarrow> (Inl e, s)
      | Inr j \<Rightarrow>
         (case find_one (\<lambda>d. j_id d = j) (justification s) of
            None \<Rightarrow> (Inl (HTTPException 404 ''Justification not found''), s)
          | Some just \<Rightarrow>
             (let cid = new_oid (next_oid s);
                  s1 = s\<lparr>comment := comment s @
                          [\<lparr>c_id = cid, c_justification_id = jid,
                            c_author_email = cc_author_email payload,
                            c_message = cc_message payload,
                            c_is_internal = cc_is_internal payload,
                            c_created_at = now\<rparr>],
                        next_oid := next_oid s + 1\<rparr>;
                  s2 = log_audit s1 now ''justification'' jid ''COMMENT''
                         (cc_author_email payload)
                         (Some [(''comment_id'', Some (str_oid cid))])
              in (Inr (IdResp (str_oid cid)), s2))))"

text \<open>Rule creation: the body is read at the fields of \<^verbatim>\<open>RoutingRule\<close>, each optional.\<close>

record RuleBody =
  rl_name :: "string option"
  rl_department :: "string option"
  rl_type_code :: "string option"
  rl_spend_threshold :: "number option"
  rl_approver_emails :: "string list"

definition create_rule :: "db \<Rightarrow> datetime \<Rightarrow> RuleBody \<Rightarrow> (error + response) \<times> db" where
  "create_rule s now rule =
     (case rl_name rule of
        None \<Rightarrow> (Inl (HTTPException 400 ''name required''), s)
      | Some n \<Rightarrow>
         if n = [] then (Inl (HTTPException 400 ''name required''), s)
         else
           (let rid = new_oid (next_oid s)
            in (Inr (IdResp (str_oid rid)),
                s\<lparr>routingrule := routingrule s @
                     [\<lparr>r_id = rid, r_name = n, r_department = rl_department rule,
                       r_type_code = rl_type_code rule,
                       r_spend_threshold = rl_spend_threshold rule,
                       r_approver_emails = rl_approver_emails rule,
                       r_created_at = now\<rparr>],
                   next_oid := next_oid s + 1\<rparr>)))"

subsection \<open>Example documents\<close>

text \<open>Small stores on which the theorems below are run.\<close>

definition ex_just :: "nat \<Rightarrow> string \<Rightarrow> Justification" where
  "ex_just i st =
     \<lparr>j_id = new_oid i, j_title = ''Laptops'', j_type_code = ''CAPEX'', j_department = ''Eng'',
      j_cost_centre = ''CC1'', j_requester_email = ''r@x'', j_urgency = ''High'',
      j_description = ''New laptops'', j_business_impact = None, j_alternatives = None,
      j_cost_estimate = Some (Finite 5000), j_required_date = None, j_dynamic_values = [],
      j_attachments = [], j_status = st, j_created_at = 1, j_updated_at = 1\<rparr>"

definition ex_task :: "nat \<Rightarrow> nat \<Rightarrow> nat \<Rightarrow> string \<Rightarrow> string \<Rightarrow> ApprovalTask" where
  "ex_task i j idx email st =
     \<lparr>t_id = new_oid i, t_justification_id = str_oid (new_oid j), t_approver_email = email,
      t_step_index = idx, t_status = st, t_requested_more_info = None,
      t_created_at = 1, t_updated_at = None\<rparr>"

definition ex_db :: "Justification list \<Rightarrow> ApprovalTask list \<Rightarrow> db" where
  "ex_db js ts =
     \<lparr>justification = js, routingrule = [], approvaltask = ts, comment = [],
      auditlog = [], emailoutbox = [], next_oid = 100\<rparr>"

subsection \<open>The resolver as the specification words it\<close>




definition ex_rule ::
  "nat \<Rightarrow> string option \<Rightarrow> string option \<Rightarrow> number option \<Rightarrow> string list \<Rightarrow> RoutingRule" where
  "ex_rule i d t thr as =
     \<lparr>r_id = new_oid i, r_name = ''rule'', r_department = d, r_type_code = t,
      r_spend_threshold = thr, r_approver_emails = as, r_created_at = 1\<rparr>"







definition ex_Rc :: RoutingRule where
  "ex_Rc = ex_rule 6 (Some ''Eng'') (Some ''CAPEX'') (Some (JFloat (Finite 1000)))
     [''a@x'', '''', ''b@x'']"

definition ex_payload :: "string \<Rightarrow> string \<Rightarrow> pyfloat option \<Rightarrow> JustificationCreate" where
  "ex_payload d t c =
     \<lparr>jc_title = ''Laptops'', jc_type_code = t, jc_department = d, jc_cost_centre = ''CC1'',
      jc_requester_email = ''r@x'', jc_urgency = ''High'', jc_description = ''New laptops'',
      jc_business_impact = None, jc_alternatives = None, jc_cost_estimate = c,
      jc_required_date = None, jc_dynamic_values = [], jc_attachments = []\<rparr>"

section \<open>Identifiers: rendering and parsing\<close>

lemma less_numeral_split:
  "(d::nat) < numeral k \<longleftrightarrow> d < pred_numeral k \<or> d = pred_numeral k"
  by (simp add: numeral_eq_Suc less_Suc_eq)

lemma hex_digit_cases:
  assumes "d < 16"
  shows "d = 0 \<or> d = 1 \<or> d = 2 \<or> d = 3 \<or> d = 4 \<or> d = 5 \<or> d = 6
    \<or> d = 7 \<or> d = 8 \<or> d = 9 \<or> d = 10 \<or> d = 11 \<or> d = 12 \<or> d = 13 \<or> d = 14
    \<or> d = (15::nat)"
  using assms by (simp add: less_numeral_split less_Suc_eq)

lemma hexval_hexdigit: "d < 16 \<Longrightarrow> hexval (hexdigit d) = Some d"
  by (drule hex_digit_cases) (elim disjE; simp add: hexval_def hexdigit_def)

lemma not_isspace_hexdigit: "d < 16 \<Longrightarrow> \<not> isspace (hexdigit d)"
  by (drule hex_digit_cases) (elim disjE; simp add: isspace_def hexdigit_def)

lemma byte_nibbles: "of_nat (16 * (unat b div 16) + unat b mod 16) = (b :: byte)"
  by simp

lemma fromhex_str_oid: "fromhex (str_oid bs) = Some bs"
proof (induction bs)
  case Nil
  then show ?case by (simp add: str_oid_def)
next
  case (Cons b bs)
  have "unat b < 256" using unsigned_less [of b] by simp
  then have hi: "unat b div 16 < 16" by simp
  have lo: "unat b mod 16 < 16" by simp
  have "str_oid (b # bs) = hexdigit (unat b div 16) # hexdigit (unat b mod 16) # str_oid bs"
    by (simp add: str_oid_def)
  then show ?case
    using Cons hi lo
    by (simp add: hexval_hexdigit not_isspace_hexdigit del: of_nat_add of_nat_mult)
qed

lemma length_str_oid: "length (str_oid bs) = 2 * length bs"
  by (induction bs) (simp_all add: str_oid_def)

lemma length_new_oid: "length (new_oid n) = 12"
  by (simp add: new_oid_def)

text \<open>Parsing the rendering of a 12-byte identifier gives the identifier back.\<close>

lemma ObjectId_str_oid: "length bs = 12 \<Longrightarrow> ObjectId (str_oid bs) = Inr bs"
  by (simp add: ObjectId_def length_str_oid fromhex_str_oid)

lemma ObjectId_new_oid: "ObjectId (str_oid (new_oid n)) = Inr (new_oid n)"
  by (simp add: ObjectId_str_oid length_new_oid)

lemma str_oid_eq_iff: "str_oid a = str_oid b \<longleftrightarrow> a = b"
proof
  assume "str_oid a = str_oid b"
  then have "fromhex (str_oid a) = fromhex (str_oid b)" by simp
  then show "a = b" by (simp add: fromhex_str_oid)
qed simp

section \<open>Collection primitives\<close>

lemma find_one_SomeD: "find_one P xs = Some x \<Longrightarrow> P x \<and> x \<in> set xs"
  by (auto simp: find_one_def find_Some_iff)

lemma find_one_None_iff: "find_one P xs = None \<longleftrightarrow> (\<forall>x\<in>set xs. \<not> P x)"
  by (auto simp: find_one_def find_None_iff)

lemma length_update_one: "length (update_one P f xs) = length xs"
  by (induction xs) auto

lemma update_one_None: "find_one P xs = None \<Longrightarrow> update_one P f xs = xs"
  by (induction xs) (auto simp: find_one_def split: if_splits)

text \<open>\<open>update_one\<close> rewrites the first match, at the position where \<open>find_one\<close> found it.\<close>

lemma update_one_list_update:
  "find_one P xs = Some x \<Longrightarrow>
   \<exists>k<length xs. xs ! k = x \<and> (\<forall>m<k. \<not> P (xs ! m)) \<and> update_one P f xs = xs[k := f x]"
proof (induction xs)
  case Nil
  then show ?case by (simp add: find_one_def)
next
  case (Cons y ys)
  show ?case
  proof (cases "P y")
    case True
    with Cons.prems have "y = x" by (simp add: find_one_def)
    with True show ?thesis by (intro exI [of _ 0]) simp
  next
    case False
    with Cons.prems have "find_one P ys = Some x" by (simp add: find_one_def)
    from Cons.IH [OF this] obtain k where k: "k < length ys" "ys ! k = x"
      "\<forall>m<k. \<not> P (ys ! m)" "update_one P f ys = ys[k := f x]" by blast
    have "\<forall>m<Suc k. \<not> P ((y # ys) ! m)"
      using False k(3) by (auto simp: less_Suc_eq_0_disj)
    with k False show ?thesis by (intro exI [of _ "Suc k"]) simp
  qed
qed

lemma find_one_update_one:
  "(\<And>x. P x \<Longrightarrow> P (f x)) \<Longrightarrow> find_one P (update_one P f xs) = map_option f (find_one P xs)"
  by (induction xs) (auto simp: find_one_def)

lemma map_update_one: "(\<And>x. g (f x) = g x) \<Longrightarrow> map g (update_one P f xs) = map g xs"
  by (induction xs) auto

section \<open>Resubmission\<close>

text \<open>
  C10. Resubmit puts no condition on the status the justification has: for a stored
  justification, whatever its status, the call returns \<^verbatim>\<open>{"ok": True}\<close> and the
  justification is found afterwards with status PendingApproval (and the new update time),
  its other fields as before.
\<close>

theorem resubmit_any_status:
  assumes "ObjectId jid = Inr j"
    and "find_one (\<lambda>d. j_id d = j) (justification s) = Some just"
  shows "fst (resubmit s now jid payload) = Inr OkTrue \<and>
         find_one (\<lambda>d. j_id d = j) (justification (snd (resubmit s now jid payload)))
           = Some (just\<lparr>j_status := ''PendingApproval'', j_updated_at := now\<rparr>)"
proof -
  from assms(2) have "j_id just = j" by (auto dest: find_one_SomeD)
  with assms show ?thesis
    by (simp add: resubmit_def Let_def log_audit_def send_email_stub_def find_one_update_one)
qed

theorem resubmit_any_status_witness:
  "ObjectId (str_oid (new_oid 1)) = Inr (new_oid 1) \<and>
   find_one (\<lambda>d. j_id d = new_oid 1) (justification (ex_db [ex_just 1 ''Approved''] []))
     = Some (ex_just 1 ''Approved'') \<and>
   fst (resubmit (ex_db [ex_just 1 ''Approved''] []) 7 (str_oid (new_oid 1))
          \<lparr>rs_actor_email = ''r@x'', rs_message = None\<rparr>) = Inr OkTrue \<and>
   find_one (\<lambda>d. j_id d = new_oid 1)
     (justification (snd (resubmit (ex_db [ex_just 1 ''Approved''] []) 7 (str_oid (new_oid 1))
          \<lparr>rs_actor_email = ''r@x'', rs_message = None\<rparr>)))
     = Some (ex_just 1 ''PendingApproval''\<lparr>j_updated_at := 7\<rparr>)"
proof -
  have a: "ObjectId (str_oid (new_oid 1)) = Inr (new_oid 1)" by (rule ObjectId_new_oid)
  have b: "find_one (\<lambda>d. j_id d = new_oid 1)
             (justification (ex_db [ex_just 1 ''Approved''] []))
     = Some (ex_just 1 ''Approved'')"
    by (simp add: find_one_def ex_db_def ex_just_def)
  show ?thesis
    using resubmit_any_status [OF a b, of 7 "\<lparr>rs_actor_email = ''r@x'', rs_message = None\<rparr>"]
      a b
    by (simp add: ex_just_def)
qed

section \<open>Unknown identifiers\<close>

text \<open>
  C7, as the code has it. An identifier that \<^verbatim>\<open>ObjectId\<close> parses and that names no
  stored task makes Approve, Reject (given a non-empty reason) and RequestInfo fail with
  404 and leave the store as it was; one that names no stored justification does the
  same to Resubmit, the detail view and add-comment.
\<close>

theorem unknown_identifier:
  "ObjectId ident = Inr i \<longrightarrow>
      (find_one (\<lambda>t. t_id t = i) (approvaltask s) = None \<longrightarrow>
         approve_task s now ident a = (Inl (HTTPException 404 ''Task not found''), s) \<and>
         (aa_comment a \<noteq> None \<and> aa_comment a \<noteq> Some [] \<longrightarrow>
            reject_task s now ident a = (Inl (HTTPException 404 ''Task not found''), s)) \<and>
         request_info s now ident r = (Inl (HTTPException 404 ''Task not found''), s)) \<and>
      (find_one (\<lambda>d. j_id d = i) (justification s) = None \<longrightarrow>
         resubmit s now ident p = (Inl (HTTPException 404 ''Not found''), s) \<and>
         get_justification s ident = (Inl (HTTPException 404 ''Not found''), s) \<and>
         add_comment s now ident c = (Inl (HTTPException 404 ''Justification not found''), s))"
  by (auto simp: approve_task_def reject_task_def request_info_def resubmit_def
      get_justification_def add_comment_def split: option.splits)

text \<open>
  The claim as first stated fails: on a store with no task at all, Reject without a
  reason answers 400 before it looks the task up, and Approve on \<^verbatim>\<open>"abc"\<close>, which
  \<^verbatim>\<open>ObjectId\<close> refuses for its length, answers with that \<^verbatim>\<open>InvalidId\<close>.
\<close>

theorem unknown_identifier_counterexample:
  "approvaltask empty_db = [] \<and>
   reject_task empty_db 7 (str_oid (new_oid 5)) \<lparr>aa_actor_email = ''a@x'', aa_comment = None\<rparr>
     = (Inl (HTTPException 400 ''Rejection requires a reason in comment''), empty_db) \<and>
   approve_task empty_db 7 ''abc'' \<lparr>aa_actor_email = ''a@x'', aa_comment = None\<rparr>
     = (Inl InvalidId, empty_db)"
  by (simp add: approve_task_def reject_task_def ObjectId_def empty_db_def)

text \<open>
  The theorem at two identifiers: the rendering of a 12-byte identifier that is not
  stored, and a 24-character string with blanks, which parses to 8 bytes.
\<close>

theorem unknown_identifier_witness:
  "ObjectId (str_oid (new_oid 5)) = Inr (new_oid 5) \<and>
   ObjectId ''00 00 00 00 00 00 00 00 '' = Inr [0, 0, 0, 0, 0, 0, 0, 0] \<and>
   find_one (\<lambda>t. t_id t = new_oid 5)
     (approvaltask (ex_db [ex_just 1 ''Approved''] [ex_task 10 1 0 ''a@x'' ''Pending''])) = None \<and>
   find_one (\<lambda>d. j_id d = new_oid 5)
     (justification (ex_db [ex_just 1 ''Approved''] [ex_task 10 1 0 ''a@x'' ''Pending''])) = None \<and>
   find_one (\<lambda>t. t_id t = [0, 0, 0, 0, 0, 0, 0, 0])
     (approvaltask (ex_db [ex_just 1 ''Approved''] [ex_task 10 1 0 ''a@x'' ''Pending''])) = None \<and>
   approve_task (ex_db [ex_just 1 ''Approved''] [ex_task 10 1 0 ''a@x'' ''Pending'']) 7
       (str_oid (new_oid 5)) \<lparr>aa_actor_email = ''a@x'', aa_comment = Some ''no''\<rparr>
     = (Inl (HTTPException 404 ''Task not found''),
        ex_db [ex_just 1 ''Approved''] [ex_task 10 1 0 ''a@x'' ''Pending'']) \<and>
   reject_task (ex_db [ex_just 1 ''Approved''] [ex_task 10 1 0 ''a@x'' ''Pending'']) 7
       (str_oid (new_oid 5)) \<lparr>aa_actor_email = ''a@x'', aa_comment = Some ''no''\<rparr>
     = (Inl (HTTPException 404 ''Task not found''),
        ex_db [ex_just 1 ''Approved''] [ex_task 10 1 0 ''a@x'' ''Pending'']) \<and>
   resubmit (ex_db [ex_just 1 ''Approved''] [ex_task 10 1 0 ''a@x'' ''Pending'']) 7
       (str_oid (new_oid 5)) \<lparr>rs_actor_email = ''r@x'', rs_message = None\<rparr>
     = (Inl (HTTPException 404 ''Not found''),
        ex_db [ex_just 1 ''Approved''] [ex_task 10 1 0 ''a@x'' ''Pending'']) \<and>
   add_comment (ex_db [ex_just 1 ''Approved''] [ex_task 10 1 0 ''a@x'' ''Pending'']) 7
       (str_oid (new_oid 5))
       \<lparr>cc_author_email = ''r@x'', cc_message = ''hello'', cc_is_internal = False\<rparr>
     = (Inl (HTTPException 404 ''Justification not found''),
        ex_db [ex_just 1 ''Approved''] [ex_task 10 1 0 ''a@x'' ''Pending'']) \<and>
   approve_task (ex_db [ex_just 1 ''Approved''] [ex_task 10 1 0 ''a@x'' ''Pending'']) 7
       ''00 00 00 00 00 00 00 00 '' \<lparr>aa_actor_email = ''a@x'', aa_comment = Some ''no''\<rparr>
     = (Inl (HTTPException 404 ''Task not found''),
        ex_db [ex_just 1 ''Approved''] [ex_task 10 1 0 ''a@x'' ''Pending''])"
proof -
  let ?s = "ex_db [ex_just 1 ''Approved''] [ex_task 10 1 0 ''a@x'' ''Pending'']"
  have a: "ObjectId (str_oid (new_oid 5)) = Inr (new_oid 5)" by (rule ObjectId_new_oid)
  have a': "ObjectId ''00 00 00 00 00 00 00 00 '' = Inr [0, 0, 0, 0, 0, 0, 0, 0]"
    by (simp add: ObjectId_def hexval_def isspace_def)
  have b: "find_one (\<lambda>t. t_id t = new_oid 5) (approvaltask ?s) = None"
    by (simp add: find_one_def ex_db_def ex_task_def new_oid_def)
  have c: "find_one (\<lambda>d. j_id d = new_oid 5) (justification ?s) = None"
    by (simp add: find_one_def ex_db_def ex_just_def new_oid_def)
  have b': "find_one (\<lambda>t. t_id t = [0, 0, 0, 0, 0, 0, 0, 0]) (approvaltask ?s) = None"
    by (simp add: find_one_def ex_db_def ex_task_def new_oid_def)
  show ?thesis
    using a a' b c b'
      unknown_identifier [of "str_oid (new_oid 5)" "new_oid 5" ?s 7
        "\<lparr>aa_actor_email = ''a@x'', aa_comment = Some ''no''\<rparr>" _
        "\<lparr>rs_actor_email = ''r@x'', rs_message = None\<rparr>"
        "\<lparr>cc_author_email = ''r@x'', cc_message = ''hello'', cc_is_internal = False\<rparr>"]
      unknown_identifier [of "''00 00 00 00 00 00 00 00 ''" "[0, 0, 0, 0, 0, 0, 0, 0]" ?s 7
        "\<lparr>aa_actor_email = ''a@x'', aa_comment = Some ''no''\<rparr>"]
    by simp
qed

section \<open>Missing reasons\<close>

text \<open>
  C6, as the code has it. Reject with no comment, or an empty one, fails with 400 and
  returns the store unchanged, so no task, justification or audit entry is written. A
  request-info body without a reason is refused by the validation of the body, before
  the handler runs, and the store is unchanged.
\<close>

theorem missing_reason:
  "(aa_comment a = None \<or> aa_comment a = Some [] \<longrightarrow>
      reject_task s now task_id a
        = (Inl (HTTPException 400 ''Rejection requires a reason in comment''), s)) \<and>
   (rb_reason b = None \<longrightarrow>
      request_info_route s now task_id b = (Inl RequestValidationError, s))"
  by (auto simp: reject_task_def request_info_route_def RequestInfoAction_validate_def
      split: option.splits)

theorem missing_reason_witness:
  "reject_task (ex_db [ex_just 1 ''PendingApproval''] [ex_task 10 1 0 ''a@x'' ''Pending'']) 7
      (str_oid (new_oid 10)) \<lparr>aa_actor_email = ''a@x'', aa_comment = Some ''''\<rparr>
     = (Inl (HTTPException 400 ''Rejection requires a reason in comment''),
        ex_db [ex_just 1 ''PendingApproval''] [ex_task 10 1 0 ''a@x'' ''Pending'']) \<and>
   request_info_route (ex_db [ex_just 1 ''PendingApproval''] [ex_task 10 1 0 ''a@x'' ''Pending''])
      7 (str_oid (new_oid 10)) \<lparr>rb_actor_email = Some ''a@x'', rb_reason = None\<rparr>
     = (Inl RequestValidationError,
        ex_db [ex_just 1 ''PendingApproval''] [ex_task 10 1 0 ''a@x'' ''Pending''])"
  using missing_reason [of "\<lparr>aa_actor_email = ''a@x'', aa_comment = Some ''''\<rparr>"
      "ex_db [ex_just 1 ''PendingApproval''] [ex_task 10 1 0 ''a@x'' ''Pending'']" 7 "str_oid (new_oid 10)"
      "\<lparr>rb_actor_email = Some ''a@x'', rb_reason = None\<rparr>"]
  by simp

text \<open>
  The claim as first stated fails for RequestInfo: an empty reason is a string, the
  handler has no check of its own, and the call succeeds and changes the task.
\<close>

theorem missing_reason_counterexample:
  "fst (request_info_route
         (ex_db [ex_just 1 ''PendingApproval''] [ex_task 10 1 0 ''a@x'' ''Pending'']) 7
         (str_oid (new_oid 10)) \<lparr>rb_actor_email = Some ''a@x'', rb_reason = Some ''''\<rparr>) = Inr OkTrue \<and>
   map t_status (approvaltask (snd (request_info_route
         (ex_db [ex_just 1 ''PendingApproval''] [ex_task 10 1 0 ''a@x'' ''Pending'']) 7
         (str_oid (new_oid 10)) \<lparr>rb_actor_email = Some ''a@x'', rb_reason = Some ''''\<rparr>)))
     = [''NeedsMoreInfo'']"
  by (simp add: request_info_route_def RequestInfoAction_validate_def request_info_def
      ObjectId_new_oid find_one_def ex_db_def ex_task_def ex_just_def Let_def
      log_audit_def send_email_stub_def)

section \<open>Routing selection\<close>












end
